theory Spec2Isabelle
  imports Complex_Main
begin

section \<open>Geographic values\<close>

text \<open>
  \<open>LatLng\<close> and \<open>LatLngBounds\<close> as the overlay stores them: a pair of coordinates in
  degrees, and a rectangle given by its south-west and north-east corners.
\<close>

record latLng =
  lat :: real
  lng :: real

record latLngBounds =
  southWest :: latLng
  northEast :: latLng

section \<open>ImageOverlay (src/layer/ImageOverlay.js)\<close>

text \<open>
  Objects live in a store and are named by references, because an overlay and the image
  element it displays are separate objects: \<open>_image\<close> is a reference, and a method that
  "returns this" returns the reference it was called on.
\<close>

type_synonym ref = nat

text \<open>
  \<open>crossOrigin\<close> is \<open>Boolean|String\<close>. \<open>_url\<close> is a string, or, between construction
  and \<open>_initImage\<close>, the \<open>IMG\<close> element that was handed to the constructor.
\<close>

datatype crossOriginVal = CrossBool bool | CrossStr string

datatype urlVal = Str string | Elem ref

record imageOptions =
  opacity :: real
  alt :: string
  interactive :: bool
  crossOrigin :: crossOriginVal
  errorOverlayUrl :: string
  zIndex :: int
  className :: string
  decoding :: string

text \<open>The defaults installed by \<open>setDefaultOptions\<close> in the class's static block.\<close>

definition defaultOptions :: imageOptions where
  "defaultOptions =
     \<lparr>opacity = 1, alt = '''', interactive = False, crossOrigin = CrossBool False,
      errorOverlayUrl = '''', zIndex = 1, className = '''', decoding = ''auto''\<rparr>"

text \<open>
  The fields of an overlay that \<open>setUrl\<close> and \<open>_overlayOnError\<close> read or write, together
  with the two the frame conditions are about. \<open>imageEl = None\<close> is an overlay whose
  \<open>_image\<close> is still undefined.
\<close>

record overlay =
  url :: urlVal
  bounds :: latLngBounds
  options :: imageOptions
  imageEl :: "ref option"

record imgElement =
  src :: string

text \<open>
  The store: the overlays, the image elements, and the events fired so far, oldest first,
  each with the layer that fired it.
\<close>

record world =
  overlays :: "ref \<Rightarrow> overlay"
  images :: "ref \<Rightarrow> imgElement"
  fired :: "(ref \<times> string) list"

text \<open>
  \<open>fire\<close> belongs to \<open>Evented\<close>, which the overlay inherits through \<open>Layer\<close>. Here it
  records the event; what the listeners of the event do is outside the model.
\<close>

definition fire :: "ref \<Rightarrow> string \<Rightarrow> world \<Rightarrow> world" where
  "fire this type w = w\<lparr>fired := fired w @ [(this, type)]\<rparr>"

definition setOverlayUrl :: "ref \<Rightarrow> urlVal \<Rightarrow> world \<Rightarrow> world" where
  "setOverlayUrl this v w = w\<lparr>overlays := (overlays w)(this := (overlays w this)\<lparr>url := v\<rparr>)\<rparr>"

definition setImageSrc :: "ref \<Rightarrow> string \<Rightarrow> world \<Rightarrow> world" where
  "setImageSrc i s w = w\<lparr>images := (images w)(i := (images w i)\<lparr>src := s\<rparr>)\<rparr>"

text \<open>
  \<^verbatim>\<open>setUrl(url) { this._url = url; if (this._image) { this._image.src = url; } return this; }\<close>
  The result is the returned reference and the store after the call.
\<close>

definition setUrl :: "ref \<Rightarrow> string \<Rightarrow> world \<Rightarrow> ref \<times> world" where
  "setUrl this u w =
     (let w1 = setOverlayUrl this (Str u) w in
      case imageEl (overlays w1 this) of
        None \<Rightarrow> (this, w1)
      | Some i \<Rightarrow> (this, setImageSrc i u w1))"

text \<open>
  \<open>_overlayOnError\<close>. The event is fired first. The string \<open>errorUrl\<close> is truthy when it is
  not empty. When \<open>_image\<close> is undefined the assignment to \<open>this._image.src\<close> throws a
  \<open>TypeError\<close>, after \<open>_url\<close> has been written; the store at that point is kept.
\<close>

datatype jsError = TypeError

definition overlayOnError :: "ref \<Rightarrow> world \<Rightarrow> jsError option \<times> world" where
  "overlayOnError this w =
     (let w1 = fire this ''error'' w;
          errorUrl = errorOverlayUrl (options (overlays w1 this)) in
      if errorUrl \<noteq> '''' \<and> url (overlays w1 this) \<noteq> Str errorUrl then
        (let w2 = setOverlayUrl this (Str errorUrl) w1 in
         case imageEl (overlays w2 this) of
           None \<Rightarrow> (Some TypeError, w2)
         | Some i \<Rightarrow> (None, setImageSrc i errorUrl w2))
      else (None, w1))"

text \<open>\<open>n\<close> image errors in a row on the same overlay, with nothing else in between.\<close>

fun errorsInARow :: "nat \<Rightarrow> ref \<Rightarrow> world \<Rightarrow> world" where
  "errorsInARow 0 this w = w"
| "errorsInARow (Suc n) this w = errorsInARow n this (snd (overlayOnError this w))"

section \<open>Class: constructor hooks\<close>

text \<open>
  The class \<open>Class\<close> is the second module of the delivered file
  \<open>spec/suites/geo/projection/ProjectionSpec.js\<close>, after the projection tests.
\<close>

text \<open>
  A prototype object is modelled by the one property \<open>callInitHooks\<close> reads from it:
  its own \<open>_initHooks\<close> array, \<open>None\<close> when the object has no own property of that name.
  Every writer of the property in \<open>Class.js\<close> (\<open>extend\<close>, \<open>addInitHook\<close>) stores an array of
  functions. Hooks are named by values of type \<open>'h\<close>.
\<close>

record 'h protoObj =
  ownInitHooks :: "'h list option"

text \<open>
  An object together with its prototype chain is the list of the object, its prototype,
  the prototype of that, and so on to the object whose prototype is \<open>null\<close>. The chain of
  a JavaScript object is finite and has no cycle.

  Reading \<open>o._initHooks\<close> takes the own property of the first object of \<open>o\<close>'s chain that
  has one; the result is \<open>undefined\<close> (\<open>None\<close>) when none has.
\<close>

fun getInitHooks :: "'h protoObj list \<Rightarrow> 'h list option" where
  "getInitHooks [] = None"
| "getInitHooks (p # ps) =
     (case ownInitHooks p of Some hs \<Rightarrow> Some hs | None \<Rightarrow> getInitHooks ps)"

text \<open>
  \<^verbatim>\<open>while ((current = Object.getPrototypeOf(current)) !== null) { prototypes.push(current); }\<close>
  started on the chain that follows the instance. Each collected prototype is kept with
  its own chain, which is the rest of the list.
\<close>

fun collectPrototypes :: "'h protoObj list \<Rightarrow> 'h protoObj list list" where
  "collectPrototypes [] = []"
| "collectPrototypes (p # ps) = (p # ps) # collectPrototypes ps"

text \<open>\<^verbatim>\<open>proto._initHooks ?? []\<close>\<close>

definition initHooksOrEmpty :: "'h protoObj list \<Rightarrow> 'h list" where
  "initHooksOrEmpty proto = (case getInitHooks proto of None \<Rightarrow> [] | Some hs \<Rightarrow> hs)"

text \<open>
  An instance: the flag \<open>_initHooksCalled\<close>, the chain of prototypes above it
  (\<open>Object.getPrototypeOf(this)\<close> first), and the rest of its state, which is what hooks
  act on. A hook \<open>h\<close> called on the instance turns the state \<open>s\<close> into \<open>call h s\<close>; hooks
  that throw, that call \<open>callInitHooks\<close> themselves or that change the prototypes are
  outside the model.
\<close>

record ('h, 's) classInstance =
  initHooksCalled :: bool
  protoChain :: "'h protoObj list"
  state :: 's

text \<open>
  \<open>callInitHooks\<close>. The result is the instance after the call and the hooks that were
  invoked, in the order of invocation.
\<close>

definition callInitHooks ::
  "('h \<Rightarrow> 's \<Rightarrow> 's) \<Rightarrow> ('h, 's) classInstance \<Rightarrow> ('h, 's) classInstance \<times> 'h list" where
  "callInitHooks call this =
     (if initHooksCalled this then (this, [])
      else
        (let prototypes = rev (collectPrototypes (protoChain this));
             (s, invoked) =
               fold (\<lambda>proto acc.
                       fold (\<lambda>hook (s, invoked). (call hook s, invoked @ [hook]))
                            (initHooksOrEmpty proto) acc)
                    prototypes (state this, [])
         in (this\<lparr>state := s, initHooksCalled := True\<rparr>, invoked)))"

text \<open>
  What the hooks registered on the prototypes of a chain are, parent prototype first:
  the own \<open>_initHooks\<close> of each prototype, from the end of the chain to its start.
\<close>

definition ownHooksParentFirst :: "'h protoObj list \<Rightarrow> 'h list" where
  "ownHooksParentFirst chain =
     concat (map (\<lambda>p. case ownInitHooks p of None \<Rightarrow> [] | Some hs \<Rightarrow> hs) (rev chain))"

text \<open>
  A chain in which no prototype inherits hooks: each prototype either has an own
  \<open>_initHooks\<close>, or reading \<open>_initHooks\<close> from the prototypes above it gives nothing.
\<close>

fun noInheritedHooks :: "'h protoObj list \<Rightarrow> bool" where
  "noInheritedHooks [] = True"
| "noInheritedHooks (p # ps) =
     ((case ownInitHooks p of None \<Rightarrow> initHooksOrEmpty ps = [] | Some hs \<Rightarrow> True)
      \<and> noInheritedHooks ps)"

text \<open>
  The instance made by
  \<^verbatim>\<open>class A extends Class {}  A.addInitHook(h);  class B extends A {}  new B()\<close>
  at the moment its constructor calls \<open>callInitHooks\<close>: the chain is \<open>B.prototype\<close>,
  \<open>A.prototype\<close>, \<open>Class.prototype\<close>, \<open>Object.prototype\<close>, and only \<open>A.prototype\<close> has an
  own \<open>_initHooks\<close>, holding \<open>h\<close>. The state counts the hook invocations.
\<close>

definition subclassInstance :: "(string, nat) classInstance" where
  "subclassInstance =
     \<lparr>initHooksCalled = False,
      protoChain = [\<lparr>ownInitHooks = None\<rparr>, \<lparr>ownInitHooks = Some [''h'']\<rparr>,
                    \<lparr>ownInitHooks = None\<rparr>, \<lparr>ownInitHooks = None\<rparr>],
      state = 0\<rparr>"

definition countCall :: "string \<Rightarrow> nat \<Rightarrow> nat" where
  "countCall h n = Suc n"

section \<open>SphericalMercator\<close>

text \<open>
  The projection modules are not among the source files; only the tests of the
  projections are. The definitions of this section follow the formulas of the
  specification, over the real numbers. They give the value of the formulas and say
  nothing about the rounding, the overflow or the infinities of 64-bit floating point;
  they are used for the value at the two corners of the world only.
\<close>

text \<open>Modelled from the spec: Point, "{x: float64, y: float64}", with the coordinates as reals.\<close>

record point =
  xc :: real
  yc :: real

text \<open>Modelled from the spec: SphericalMercator's radius, "a sphere of radius R = 6378137".\<close>

definition R :: real where
  "R = 6378137"

text \<open>Modelled from the spec: SphericalMercator's \<open>MAX_LATITUDE\<close>, given as 85.0511287798.\<close>

definition MAX_LATITUDE :: real where
  "MAX_LATITUDE = 85.0511287798"

text \<open>
  Modelled from the spec: SphericalMercator's \<open>project\<close>, "clamp lat to
  [-MAX_LATITUDE, MAX_LATITUDE]; x = R*lng*pi/180; y = R*ln(tan(pi/4 + lat*pi/360))".
\<close>

definition clampLat :: "real \<Rightarrow> real" where
  "clampLat v = max (min MAX_LATITUDE v) (- MAX_LATITUDE)"

definition sphericalProject :: "latLng \<Rightarrow> point" where
  "sphericalProject p =
     \<lparr>xc = R * lng p * pi / 180,
      yc = R * ln (tan (pi / 4 + clampLat (lat p) * pi / 360))\<rparr>"

text \<open>
  Partial sums of the series of \<open>arctan\<close> and \<open>exp\<close>, used to enclose the values of the
  projection formulas between decimal numbers.
\<close>

fun arctanSum :: "real \<Rightarrow> nat \<Rightarrow> real" where
  "arctanSum x 0 = 0"
| "arctanSum x (Suc n) = arctanSum x n + (- 1) ^ n * (1 / real (n * 2 + 1) * x ^ (n * 2 + 1))"

fun expSum :: "real \<Rightarrow> nat \<Rightarrow> real" where
  "expSum x 0 = 0"
| "expSum x (Suc n) = expSum x n + x ^ n / fact n"

text \<open>
  The angle \<open>pi / 4 - MAX_LATITUDE * pi / 360\<close>, as a multiple of \<open>pi\<close>:
  \<open>(90 - 85.0511287798) / 360 = 24744356101 / 1800000000000\<close>.
\<close>

definition cornerAngle :: real where
  "cornerAngle = pi * (24744356101 / 1800000000000)"

section \<open>Concrete inputs\<close>

text \<open>
  A store in which every overlay already shows its fallback image: \<open>_url\<close> and the
  option \<open>errorOverlayUrl\<close> are both \<open>fallback.png\<close>.
\<close>

definition fallbackWorld :: world where
  "fallbackWorld =
     \<lparr>overlays = (\<lambda>r. \<lparr>url = Str ''fallback.png'',
                        bounds = \<lparr>southWest = \<lparr>lat = 0, lng = 0\<rparr>,
                                  northEast = \<lparr>lat = 1, lng = 1\<rparr>\<rparr>,
                        options = defaultOptions\<lparr>errorOverlayUrl := ''fallback.png''\<rparr>,
                        imageEl = Some 0\<rparr>),
      images = (\<lambda>r. \<lparr>src = ''fallback.png''\<rparr>),
      fired = []\<rparr>"

section \<open>Properties of ImageOverlay\<close>

lemma overlays_setOverlayUrl:
  "overlays (setOverlayUrl this v w) r = (if r = this then (overlays w this)\<lparr>url := v\<rparr> else overlays w r)"
  by (simp add: setOverlayUrl_def)

lemma images_setOverlayUrl: "images (setOverlayUrl this v w) = images w"
  by (simp add: setOverlayUrl_def)

lemma fired_setOverlayUrl: "fired (setOverlayUrl this v w) = fired w"
  by (simp add: setOverlayUrl_def)

lemma overlays_setImageSrc: "overlays (setImageSrc i s w) = overlays w"
  by (simp add: setImageSrc_def)

lemma images_setImageSrc:
  "images (setImageSrc i s w) j = (if j = i then (images w i)\<lparr>src := s\<rparr> else images w j)"
  by (simp add: setImageSrc_def)

lemma fired_setImageSrc: "fired (setImageSrc i s w) = fired w"
  by (simp add: setImageSrc_def)

lemma overlays_fire: "overlays (fire this t w) = overlays w"
  by (simp add: fire_def)

lemma images_fire: "images (fire this t w) = images w"
  by (simp add: fire_def)

lemma fired_fire: "fired (fire this t w) = fired w @ [(this, t)]"
  by (simp add: fire_def)

lemmas store_simps =
  overlays_setOverlayUrl images_setOverlayUrl fired_setOverlayUrl
  overlays_setImageSrc images_setImageSrc fired_setImageSrc
  overlays_fire images_fire fired_fire

text \<open>
  C10. For every overlay and every url \<open>u\<close>, \<open>setUrl(u)\<close> returns the overlay it was called
  on; afterwards that overlay's \<open>_url\<close> is \<open>u\<close>, its \<open>_bounds\<close>, \<open>options\<close> and \<open>_image\<close>
  reference are what they were, and every other overlay is untouched. When the overlay has
  an image element, that element's \<open>src\<close> is \<open>u\<close> and no other element changes; when it
  has none, no element changes at all.
\<close>

theorem setUrl_frame:
  "fst (setUrl this u w) = this
   \<and> url (overlays (snd (setUrl this u w)) this) = Str u
   \<and> bounds (overlays (snd (setUrl this u w)) this) = bounds (overlays w this)
   \<and> options (overlays (snd (setUrl this u w)) this) = options (overlays w this)
   \<and> imageEl (overlays (snd (setUrl this u w)) this) = imageEl (overlays w this)
   \<and> overlays (snd (setUrl this u w)) = (overlays w)(this := (overlays w this)\<lparr>url := Str u\<rparr>)
   \<and> images (snd (setUrl this u w)) =
       (case imageEl (overlays w this) of
          None \<Rightarrow> images w
        | Some i \<Rightarrow> (images w)(i := (images w i)\<lparr>src := u\<rparr>))
   \<and> fired (snd (setUrl this u w)) = fired w"
  by (cases "imageEl (overlays w this)")
     (auto simp add: setUrl_def Let_def store_simps fun_eq_iff)

lemma overlayOnError_overlays:
  "overlays (snd (overlayOnError this w)) =
     (if errorOverlayUrl (options (overlays w this)) \<noteq> ''''
         \<and> url (overlays w this) \<noteq> Str (errorOverlayUrl (options (overlays w this)))
      then (overlays w)(this := (overlays w this)\<lparr>url := Str (errorOverlayUrl (options (overlays w this)))\<rparr>)
      else overlays w)"
  by (cases "imageEl (overlays w this)")
     (auto simp add: overlayOnError_def Let_def store_simps fun_eq_iff)

lemma overlayOnError_images:
  "images (snd (overlayOnError this w)) =
     (if errorOverlayUrl (options (overlays w this)) \<noteq> ''''
         \<and> url (overlays w this) \<noteq> Str (errorOverlayUrl (options (overlays w this)))
      then (case imageEl (overlays w this) of
              None \<Rightarrow> images w
            | Some i \<Rightarrow> (images w)(i := (images w i)\<lparr>src := errorOverlayUrl (options (overlays w this))\<rparr>))
      else images w)"
  by (cases "imageEl (overlays w this)")
     (auto simp add: overlayOnError_def Let_def store_simps fun_eq_iff)

lemma overlayOnError_fired:
  "fired (snd (overlayOnError this w)) = fired w @ [(this, ''error'')]"
  by (cases "imageEl (overlays w this)")
     (auto simp add: overlayOnError_def Let_def store_simps)

lemma overlayOnError_threw:
  "fst (overlayOnError this w) =
     (if errorOverlayUrl (options (overlays w this)) \<noteq> ''''
         \<and> url (overlays w this) \<noteq> Str (errorOverlayUrl (options (overlays w this)))
         \<and> imageEl (overlays w this) = None
      then Some TypeError else None)"
  by (cases "imageEl (overlays w this)")
     (auto simp add: overlayOnError_def Let_def store_simps)

lemma overlayOnError_url:
  "url (overlays (snd (overlayOnError this w)) this) =
     (if errorOverlayUrl (options (overlays w this)) \<noteq> ''''
         \<and> url (overlays w this) \<noteq> Str (errorOverlayUrl (options (overlays w this)))
      then Str (errorOverlayUrl (options (overlays w this)))
      else url (overlays w this))"
  by (simp add: overlayOnError_overlays)

lemma overlayOnError_options:
  "options (overlays (snd (overlayOnError this w)) r) = options (overlays w r)"
  by (simp add: overlayOnError_overlays)

lemma errorsInARow_options:
  "options (overlays (errorsInARow n this w) r) = options (overlays w r)"
  by (induction n arbitrary: w) (simp_all add: overlayOnError_options)

lemma errorsInARow_settled:
  "url (overlays w this) = Str (errorOverlayUrl (options (overlays w this)))
   \<Longrightarrow> url (overlays (errorsInARow n this w) this) = url (overlays w this)"
proof (induction n arbitrary: w)
  case 0
  show ?case by simp
next
  case (Suc n)
  let ?w1 = "snd (overlayOnError this w)"
  have u1: "url (overlays ?w1 this) = url (overlays w this)"
    using Suc.prems by (simp add: overlayOnError_url)
  have "url (overlays ?w1 this) = Str (errorOverlayUrl (options (overlays ?w1 this)))"
    using Suc.prems u1 by (simp add: overlayOnError_options)
  from Suc.IH [OF this] u1 show ?case by simp
qed

lemma errorsInARow_empty:
  "errorOverlayUrl (options (overlays w this)) = ''''
   \<Longrightarrow> url (overlays (errorsInARow n this w) this) = url (overlays w this)"
proof (induction n arbitrary: w)
  case 0
  show ?case by simp
next
  case (Suc n)
  let ?w1 = "snd (overlayOnError this w)"
  have u1: "url (overlays ?w1 this) = url (overlays w this)"
    using Suc.prems by (simp add: overlayOnError_url)
  have "errorOverlayUrl (options (overlays ?w1 this)) = ''''"
    using Suc.prems by (simp add: overlayOnError_options)
  from Suc.IH [OF this] u1 show ?case by simp
qed

lemma errorsInARow_after_first:
  "url (overlays (errorsInARow (Suc n) this w) this) =
   url (overlays (snd (overlayOnError this w)) this)"
proof (cases "errorOverlayUrl (options (overlays w this)) = ''''")
  case True
  then have "errorOverlayUrl (options (overlays (snd (overlayOnError this w)) this)) = ''''"
    by (simp add: overlayOnError_options)
  from errorsInARow_empty [OF this] show ?thesis by simp
next
  case False
  then have "url (overlays (snd (overlayOnError this w)) this) =
      Str (errorOverlayUrl (options (overlays (snd (overlayOnError this w)) this)))"
    by (simp add: overlayOnError_url overlayOnError_options)
  from errorsInARow_settled [OF this] show ?thesis by simp
qed

text \<open>
  C9. The image-error handler always fires the event \<open>error\<close>. It rewrites \<open>_url\<close> to
  \<open>options.errorOverlayUrl\<close> exactly when that option is not empty and differs from the
  current \<open>_url\<close>, and then (the overlay having an image element) sets the element's
  \<open>src\<close> to it; otherwise \<open>_url\<close> and every image element stay as they were. The options
  are never changed. So once \<open>_url\<close> equals \<open>errorOverlayUrl\<close>, any number of further
  errors leaves \<open>_url\<close> unchanged, and in any run of errors \<open>_url\<close> after the first error
  is already what it is after all of them: the swap happens at most once.
\<close>

theorem overlayOnError_fallback:
  "fired (snd (overlayOnError this w)) = fired w @ [(this, ''error'')]
   \<and> url (overlays (snd (overlayOnError this w)) this) =
       (if errorOverlayUrl (options (overlays w this)) \<noteq> ''''
           \<and> url (overlays w this) \<noteq> Str (errorOverlayUrl (options (overlays w this)))
        then Str (errorOverlayUrl (options (overlays w this)))
        else url (overlays w this))
   \<and> images (snd (overlayOnError this w)) =
       (if errorOverlayUrl (options (overlays w this)) \<noteq> ''''
           \<and> url (overlays w this) \<noteq> Str (errorOverlayUrl (options (overlays w this)))
        then (case imageEl (overlays w this) of
                None \<Rightarrow> images w
              | Some i \<Rightarrow> (images w)(i := (images w i)\<lparr>src := errorOverlayUrl (options (overlays w this))\<rparr>))
        else images w)
   \<and> options (overlays (snd (overlayOnError this w)) this) = options (overlays w this)
   \<and> (url (overlays w this) = Str (errorOverlayUrl (options (overlays w this)))
        \<longrightarrow> url (overlays (errorsInARow n this w) this) = url (overlays w this))
   \<and> url (overlays (errorsInARow (Suc n) this w) this) =
       url (overlays (snd (overlayOnError this w)) this)"
  using overlayOnError_fired [of this w] overlayOnError_url [of this w]
    overlayOnError_images [of this w] overlayOnError_options [of this w this]
    errorsInARow_settled [of w this n] errorsInARow_after_first [of n this w]
  by blast

text \<open>
  The hypothesis of C9 at a store whose overlay already shows the fallback image: three
  more errors leave \<open>_url\<close> at the fallback, and the event is fired.
\<close>

theorem overlayOnError_fallback_witness:
  "url (overlays fallbackWorld 0) = Str (errorOverlayUrl (options (overlays fallbackWorld 0)))
   \<and> url (overlays (errorsInARow 3 0 fallbackWorld) 0) = Str ''fallback.png''
   \<and> fired (snd (overlayOnError 0 fallbackWorld)) = [(0, ''error'')]"
proof -
  have h: "url (overlays fallbackWorld 0) = Str (errorOverlayUrl (options (overlays fallbackWorld 0)))"
    by (simp add: fallbackWorld_def defaultOptions_def)
  have u: "url (overlays fallbackWorld 0) = Str ''fallback.png''"
    by (simp add: fallbackWorld_def)
  have f: "fired fallbackWorld = []"
    by (simp add: fallbackWorld_def)
  from overlayOnError_fallback [of 0 fallbackWorld 3] h u f show ?thesis by simp
qed

section \<open>Properties of Class\<close>

lemma fold_hooks:
  "fold (\<lambda>hook (s, invoked). (call hook s, invoked @ [hook])) hs (s0, tr0) =
     (fold call hs s0, tr0 @ hs)"
  by (induction hs arbitrary: s0 tr0) simp_all

lemma fold_prototypes:
  "fold (\<lambda>proto acc. fold (\<lambda>hook (s, invoked). (call hook s, invoked @ [hook]))
                           (initHooksOrEmpty proto) acc) ps (s0, tr0) =
     (fold call (concat (map initHooksOrEmpty ps)) s0, tr0 @ concat (map initHooksOrEmpty ps))"
  by (induction ps arbitrary: s0 tr0) (simp_all add: fold_hooks)

lemma callInitHooks_first:
  "\<not> initHooksCalled this \<Longrightarrow>
   callInitHooks call this =
     (this\<lparr>state := fold call (concat (map initHooksOrEmpty (rev (collectPrototypes (protoChain this)))))
                          (state this),
           initHooksCalled := True\<rparr>,
      concat (map initHooksOrEmpty (rev (collectPrototypes (protoChain this)))))"
  by (simp add: callInitHooks_def Let_def fold_prototypes)

lemma callInitHooks_later: "initHooksCalled this \<Longrightarrow> callInitHooks call this = (this, [])"
  by (simp add: callInitHooks_def)

lemma callInitHooks_sets_flag: "initHooksCalled (fst (callInitHooks call this))"
  by (cases "initHooksCalled this") (simp_all add: callInitHooks_first callInitHooks_later)

lemma callInitHooks_idempotent:
  "callInitHooks call (fst (callInitHooks call this)) = (fst (callInitHooks call this), [])"
  by (rule callInitHooks_later) (rule callInitHooks_sets_flag)

lemma initHooksOrEmpty_Cons:
  "initHooksOrEmpty (p # ps) =
     (case ownInitHooks p of None \<Rightarrow> initHooksOrEmpty ps | Some hs \<Rightarrow> hs)"
  by (simp add: initHooksOrEmpty_def split: option.splits)

lemma resolved_hooks_own:
  "noInheritedHooks chain \<Longrightarrow>
   concat (map initHooksOrEmpty (rev (collectPrototypes chain))) = ownHooksParentFirst chain"
  by (induction chain)
     (auto simp add: ownHooksParentFirst_def initHooksOrEmpty_Cons split: option.splits)

lemma callInitHooks_own_hooks_once:
  "\<not> initHooksCalled this \<Longrightarrow> noInheritedHooks (protoChain this) \<Longrightarrow>
   snd (callInitHooks call this) = ownHooksParentFirst (protoChain this)"
  by (simp add: callInitHooks_first resolved_hooks_own)

text \<open>
  C8. On the instance of a class \<open>B\<close> declared as \<open>class B extends A {}\<close>, where one hook
  \<open>h\<close> was added to \<open>A\<close> and none to \<open>B\<close>, the first call of \<open>callInitHooks\<close> invokes
  \<open>h\<close> twice: once for \<open>A.prototype\<close>, and once more for \<open>B.prototype\<close>, whose
  \<open>_initHooks\<close> is read through the prototype chain. The hooks registered on the
  prototypes of the instance are just \<open>h\<close>, once.
\<close>

theorem callInitHooks_inherited_hooks_twice:
  "callInitHooks countCall subclassInstance =
     (subclassInstance\<lparr>state := 2, initHooksCalled := True\<rparr>, [''h'', ''h''])
   \<and> ownHooksParentFirst (protoChain subclassInstance) = [''h'']"
  by (simp add: callInitHooks_def subclassInstance_def Let_def initHooksOrEmpty_def
        ownHooksParentFirst_def countCall_def)

section \<open>Numeric bounds for the corners of the world\<close>

text \<open>
  The values of \<open>pi\<close>, \<open>exp\<close> and \<open>arctan\<close> that the corner points need are enclosed
  between decimals: \<open>arctan\<close> by the partial sums of its alternating series, \<open>pi\<close> by
  Machin's formula, and \<open>exp\<close> at a negative argument by its Maclaurin sum at a
  sixteenth of the argument, squared four times.
\<close>

lemma arctanSum_sum:
  "arctanSum x n = (\<Sum>i<n. (- 1) ^ i * (1 / real (i * 2 + 1) * x ^ (i * 2 + 1)))"
  by (induction n) simp_all

lemma expSum_sum: "expSum x n = (\<Sum>m<n. x ^ m / fact m)"
  by (induction n) simp_all

lemma arctan_term_decreasing:
  fixes x :: real
  assumes "0 \<le> x" "x \<le> 1"
  shows "1 / real (Suc n * 2 + 1) * x ^ (Suc n * 2 + 1) \<le> 1 / real (n * 2 + 1) * x ^ (n * 2 + 1)"
proof -
  have "x ^ (Suc n * 2 + 1) \<le> x ^ (n * 2 + 1)"
    using assms by (intro power_decreasing) simp_all
  moreover have "1 / real (Suc n * 2 + 1) \<le> 1 / real (n * 2 + 1)"
    by (simp add: field_simps)
  moreover have "0 \<le> x ^ (Suc n * 2 + 1)"
    using assms by simp
  ultimately show ?thesis
    by (intro mult_mono) simp_all
qed

lemma arctan_between_sums:
  fixes x :: real
  assumes "0 \<le> x" "x \<le> 1"
  shows "arctanSum x (2 * n) \<le> arctan x" and "arctan x \<le> arctanSum x (2 * n + 1)"
proof -
  let ?a = "\<lambda>n. 1 / real (n * 2 + 1) * x ^ (n * 2 + 1)"
  have ab: "\<bar>x\<bar> \<le> 1"
    using assms by simp
  have z: "?a \<longlonglongrightarrow> 0"
    using ab by (rule zeroseq_arctan_series)
  have p: "\<And>n. 0 \<le> ?a n"
    using assms by simp
  have m: "\<And>n. ?a (Suc n) \<le> ?a n"
    using assms by (rule arctan_term_decreasing)
  have s: "arctan x = (\<Sum>k. (- 1) ^ k * ?a k)"
    using ab by (rule arctan_series)
  show "arctanSum x (2 * n) \<le> arctan x"
    unfolding arctanSum_sum s by (rule summable_Leibniz'(2) [OF z p m])
  show "arctan x \<le> arctanSum x (2 * n + 1)"
    unfolding arctanSum_sum s by (rule summable_Leibniz'(4) [OF z p m])
qed

lemma arctan_fifth_lower: "arctanSum (1 / 5) 10 \<le> arctan (1 / 5)"
  using arctan_between_sums(1) [of "1 / 5" 5] by simp

lemma arctan_fifth_upper: "arctan (1 / 5) \<le> arctanSum (1 / 5) 11"
  using arctan_between_sums(2) [of "1 / 5" 5] by simp

lemma arctan_239th_lower: "arctanSum (1 / 239) 4 \<le> arctan (1 / 239)"
  using arctan_between_sums(1) [of "1 / 239" 2] by simp

lemma arctan_239th_upper: "arctan (1 / 239) \<le> arctanSum (1 / 239) 3"
  using arctan_between_sums(2) [of "1 / 239" 1] by simp

lemma arctanSum_fifth_lower_value: "0.1973955598498806 \<le> arctanSum (1 / 5) 10"
  by (simp add: eval_nat_numeral)

lemma arctanSum_fifth_upper_value: "arctanSum (1 / 5) 11 \<le> 0.1973955598498808"
  by (simp add: eval_nat_numeral)

lemma arctanSum_239th_lower_value: "0.0041840760020747 \<le> arctanSum (1 / 239) 4"
  by (simp add: eval_nat_numeral)

lemma arctanSum_239th_upper_value: "arctanSum (1 / 239) 3 \<le> 0.0041840760020748"
  by (simp add: eval_nat_numeral)

lemma arctan_fifth: "0.1973955598498806 \<le> arctan (1 / 5)" "arctan (1 / 5) \<le> 0.1973955598498808"
  using order_trans [OF arctanSum_fifth_lower_value arctan_fifth_lower] order_trans [OF arctan_fifth_upper arctanSum_fifth_upper_value] by simp_all

lemma arctan_239th: "0.0041840760020747 \<le> arctan (1 / 239)" "arctan (1 / 239) \<le> 0.0041840760020748"
  using order_trans [OF arctanSum_239th_lower_value arctan_239th_lower] order_trans [OF arctan_239th_upper arctanSum_239th_upper_value] by simp_all

lemma pi_bounds: "3.1415926535897 \<le> pi" "pi \<le> 3.1415926535899"
proof -
  have e: "pi = 4 * (4 * arctan (1 / 5) - arctan (1 / 239))"
    using machin by simp
  show "3.1415926535897 \<le> pi"
    using arctan_fifth(1) arctan_239th(2) unfolding e by simp
  show "pi \<le> 3.1415926535899"
    using arctan_fifth(2) arctan_239th(1) unfolding e by simp
qed


lemma exp_neg_between_sums:
  fixes t :: real
  assumes "0 \<le> t" "t \<le> 1"
  shows "expSum (- t) (2 * n) \<le> exp (- t)"
    and "exp (- t) \<le> expSum (- t) (2 * n) + 3 * t ^ (2 * n) / fact (2 * n)"
proof -
  obtain s where s: "\<bar>s\<bar> \<le> \<bar>- t\<bar>"
    and e: "exp (- t) = (\<Sum>m<2 * n. (- t) ^ m / fact m) + exp s / fact (2 * n) * (- t) ^ (2 * n)"
    using Maclaurin_exp_le [of "- t" "2 * n"] by blast
  have p: "(- t) ^ (2 * n) = t ^ (2 * n)"
    by simp
  have tn: "0 \<le> t ^ (2 * n) / fact (2 * n)"
    using assms by simp
  have "s \<le> 1"
    using s assms by linarith
  then have "exp s \<le> exp 1"
    by simp
  then have es: "exp s \<le> 3"
    using exp_le by linarith
  have r: "exp s / fact (2 * n) * (- t) ^ (2 * n) = exp s * (t ^ (2 * n) / fact (2 * n))"
    unfolding p by simp
  have "0 \<le> exp s * (t ^ (2 * n) / fact (2 * n))"
    using tn by simp
  then show "expSum (- t) (2 * n) \<le> exp (- t)"
    unfolding expSum_sum e r by simp
  have "exp s * (t ^ (2 * n) / fact (2 * n)) \<le> 3 * (t ^ (2 * n) / fact (2 * n))"
    using es tn by (rule mult_right_mono)
  then show "exp (- t) \<le> expSum (- t) (2 * n) + 3 * t ^ (2 * n) / fact (2 * n)"
    unfolding expSum_sum e r by simp
qed

lemma square_lower: "0 \<le> l \<Longrightarrow> l \<le> v \<Longrightarrow> m \<le> l * l \<Longrightarrow> m \<le> v * (v::real)"
  by (meson mult_mono order_trans)

lemma square_upper: "0 \<le> v \<Longrightarrow> v \<le> u \<Longrightarrow> u * u \<le> m \<Longrightarrow> v * v \<le> (m::real)"
  by (meson mult_mono order_trans)

lemma exp_twice: "exp (2 * x) = exp x * exp (x::real)"
  using exp_add [of x x] by simp

lemma expSum_a16: "0.8217249580559273 \<le> expSum (- 0.1963495408225) 10"
  by (simp add: eval_nat_numeral)

lemma expSum_b16:
  "expSum (- 0.19634954091875) 10 + 3 * 0.19634954091875 ^ 10 / fact 10 \<le> 0.8217249579769068"
  by (simp add: eval_nat_numeral)

lemma exp_a16: "0.8217249580559273 \<le> exp (- 0.1963495408225 :: real)"
  using exp_neg_between_sums(1) [of "0.1963495408225" 5] expSum_a16 by simp

lemma exp_a8: "0.6752319066920154 \<le> exp (- 0.392699081645 :: real)"
  using square_lower [OF _ exp_a16, of "0.6752319066920154"] exp_twice [of "- 0.1963495408225"]
  by simp

lemma exp_a4: "0.4559381278149345 \<le> exp (- 0.78539816329 :: real)"
  using square_lower [OF _ exp_a8, of "0.4559381278149345"] exp_twice [of "- 0.392699081645"]
  by simp

lemma exp_a2: "0.2078795763953875 \<le> exp (- 1.57079632658 :: real)"
  using square_lower [OF _ exp_a4, of "0.2078795763953875"] exp_twice [of "- 0.78539816329"]
  by simp

lemma exp_a: "0.0432139182823257 \<le> exp (- 3.14159265316 :: real)"
  using square_lower [OF _ exp_a2, of "0.0432139182823257"] exp_twice [of "- 1.57079632658"]
  by simp

lemma exp_b16: "exp (- 0.19634954091875 :: real) \<le> 0.8217249579769068"
  using exp_neg_between_sums(2) [of "0.19634954091875" 5] expSum_b16 by simp

lemma exp_b8: "exp (- 0.3926990818375 :: real) \<le> 0.6752319065621493"
  using square_upper [OF _ exp_b16, of "0.6752319065621493"] exp_twice [of "- 0.19634954091875"]
  by simp

lemma exp_b4: "exp (- 0.785398163675 :: real) \<le> 0.4559381276395552"
  using square_upper [OF _ exp_b8, of "0.4559381276395552"] exp_twice [of "- 0.3926990818375"]
  by simp

lemma exp_b2: "exp (- 1.57079632735 :: real) \<le> 0.2078795762354634"
  using square_upper [OF _ exp_b4, of "0.2078795762354634"] exp_twice [of "- 0.785398163675"]
  by simp

lemma exp_b: "exp (- 3.1415926547 :: real) \<le> 0.0432139182158359"
  using square_upper [OF _ exp_b2, of "0.0432139182158359"] exp_twice [of "- 1.57079632735"]
  by simp

lemma cornerAngle_bounds: "0.0431870485248383 \<le> cornerAngle" "cornerAngle \<le> 0.0431870485248412"
  using pi_bounds by (simp_all add: cornerAngle_def)

lemma cornerAngle_range: "0 < cornerAngle" "cornerAngle < pi / 2"
proof -
  show "0 < cornerAngle"
    using cornerAngle_bounds(1) by simp
  have "cornerAngle < 1"
    using cornerAngle_bounds(2) by simp
  also have "1 \<le> pi / 2"
    using pi_ge_two by simp
  finally show "cornerAngle < pi / 2" .
qed

lemma arctanSum_upper_value: "arctanSum 0.0432139182158359 5 \<le> 0.0431870484769353"
  by (simp add: eval_nat_numeral)

lemma arctanSum_lower_value: "0.0431870485432426 \<le> arctanSum 0.0432139182823257 4"
  by (simp add: eval_nat_numeral)

lemma arctan_exp_b: "arctan (exp (- 3.1415926547)) \<le> cornerAngle"
proof -
  have "arctan (exp (- 3.1415926547)) \<le> arctan 0.0432139182158359"
    using exp_b by (rule arctan_monotone')
  also have "\<dots> \<le> arctanSum 0.0432139182158359 5"
    using arctan_between_sums(2) [of "0.0432139182158359" 2] by simp
  also have "\<dots> \<le> 0.0431870484769353"
    by (rule arctanSum_upper_value)
  also have "\<dots> \<le> cornerAngle"
    using cornerAngle_bounds(1) by simp
  finally show ?thesis .
qed

lemma arctan_exp_a: "cornerAngle \<le> arctan (exp (- 3.14159265316))"
proof -
  have "cornerAngle \<le> 0.0431870485432426"
    using cornerAngle_bounds(2) by simp
  also have "\<dots> \<le> arctanSum 0.0432139182823257 4"
    by (rule arctanSum_lower_value)
  also have "\<dots> \<le> arctan 0.0432139182823257"
    using arctan_between_sums(1) [of "0.0432139182823257" 2] by simp
  also have "\<dots> \<le> arctan (exp (- 3.14159265316))"
    using exp_a by (rule arctan_monotone')
  finally show ?thesis .
qed

lemma tan_cornerAngle: "exp (- 3.1415926547) \<le> tan cornerAngle" "tan cornerAngle \<le> exp (- 3.14159265316)"
proof -
  have "tan (arctan (exp (- 3.1415926547))) \<le> tan cornerAngle"
    using arctan_lbound arctan_exp_b cornerAngle_range(2) by (rule tan_mono_le)
  then show "exp (- 3.1415926547) \<le> tan cornerAngle"
    by (simp only: tan_arctan)
  have "- (pi / 2) < cornerAngle"
    using cornerAngle_range(1) pi_gt_zero by linarith
  then have "tan cornerAngle \<le> tan (arctan (exp (- 3.14159265316)))"
    using arctan_exp_a arctan_ubound by (rule tan_mono_le)
  then show "tan cornerAngle \<le> exp (- 3.14159265316)"
    by (simp only: tan_arctan)
qed

lemma ln_tan_cornerAngle: "- 3.1415926547 \<le> ln (tan cornerAngle)" "ln (tan cornerAngle) \<le> - 3.14159265316"
proof -
  have pos: "0 < tan cornerAngle"
    using cornerAngle_range by (rule tan_gt_zero)
  have "ln (exp (- 3.1415926547)) \<le> ln (tan cornerAngle)"
    using tan_cornerAngle(1) by (intro ln_mono) simp_all
  then show "- 3.1415926547 \<le> ln (tan cornerAngle)"
    by (simp only: ln_exp)
  have "ln (tan cornerAngle) \<le> ln (exp (- 3.14159265316))"
    using tan_cornerAngle(2) pos by (intro ln_mono)
  then show "ln (tan cornerAngle) \<le> - 3.14159265316"
    by (simp only: ln_exp)
qed

lemma northEast_angle: "pi / 4 + clampLat 85.0511287798 * pi / 360 = pi / 2 - cornerAngle"
proof -
  have c: "clampLat 85.0511287798 = 85.0511287798"
    by (simp add: clampLat_def MAX_LATITUDE_def)
  have "pi / 4 + 85.0511287798 * pi / 360 = pi / 2 - cornerAngle"
    by (simp add: cornerAngle_def field_simps)
  then show ?thesis
    unfolding c .
qed

lemma southWest_angle: "pi / 4 + clampLat (- 85.0511287798) * pi / 360 = cornerAngle"
proof -
  have c: "clampLat (- 85.0511287798) = - 85.0511287798"
    by (simp add: clampLat_def MAX_LATITUDE_def)
  have "pi / 4 + (- 85.0511287798) * pi / 360 = cornerAngle"
    by (simp add: cornerAngle_def field_simps)
  then show ?thesis
    unfolding c .
qed

lemma northEast_yc:
  "yc (sphericalProject \<lparr>lat = 85.0511287798, lng = 180\<rparr>) = - (R * ln (tan cornerAngle))"
proof -
  have "yc (sphericalProject \<lparr>lat = 85.0511287798, lng = 180\<rparr>)
      = R * ln (tan (pi / 4 + clampLat 85.0511287798 * pi / 360))"
    by (simp only: sphericalProject_def point.simps latLng.simps)
  also have "\<dots> = R * ln (tan (pi / 2 - cornerAngle))"
    by (simp only: northEast_angle)
  also have "\<dots> = - (R * ln (tan cornerAngle))"
    by (simp only: tan_cot ln_inverse mult_minus_right)
  finally show ?thesis .
qed

lemma southWest_yc:
  "yc (sphericalProject \<lparr>lat = - 85.0511287798, lng = - 180\<rparr>) = R * ln (tan cornerAngle)"
proof -
  have "yc (sphericalProject \<lparr>lat = - 85.0511287798, lng = - 180\<rparr>)
      = R * ln (tan (pi / 4 + clampLat (- 85.0511287798) * pi / 360))"
    by (simp only: sphericalProject_def point.simps latLng.simps)
  also have "\<dots> = R * ln (tan cornerAngle)"
    by (simp only: southWest_angle)
  finally show ?thesis .
qed

lemma R_pi_bounds: "20037508.34 \<le> R * pi" "R * pi \<le> 20037508.35"
  using pi_bounds by (simp_all add: R_def)

lemma R_ln_tan_bounds:
  "20037508.34 \<le> - (R * ln (tan cornerAngle))" "- (R * ln (tan cornerAngle)) \<le> 20037508.35"
  using ln_tan_cornerAngle by (simp_all add: R_def)

text \<open>
  C2. SphericalMercator's \<open>project\<close> maps \<open>LatLng(85.0511287798, 180)\<close> to a point whose
  \<open>x\<close> is \<open>R * pi\<close> and whose two coordinates both lie between 20037508.34 and
  20037508.35, and it maps \<open>LatLng(-85.0511287798, -180)\<close> to the opposite point. Both
  corners are therefore within 1 of \<open>(20037508, 20037508)\<close> and its negative, and the
  extent \<open>R * pi\<close> is 20037508.34 to two decimals.
\<close>

theorem sphericalProject_corners:
  "xc (sphericalProject \<lparr>lat = 85.0511287798, lng = 180\<rparr>) = R * pi
   \<and> 20037508.34 \<le> R * pi \<and> R * pi \<le> 20037508.35
   \<and> 20037508.34 \<le> yc (sphericalProject \<lparr>lat = 85.0511287798, lng = 180\<rparr>)
   \<and> yc (sphericalProject \<lparr>lat = 85.0511287798, lng = 180\<rparr>) \<le> 20037508.35
   \<and> xc (sphericalProject \<lparr>lat = - 85.0511287798, lng = - 180\<rparr>) = - (R * pi)
   \<and> yc (sphericalProject \<lparr>lat = - 85.0511287798, lng = - 180\<rparr>)
       = - yc (sphericalProject \<lparr>lat = 85.0511287798, lng = 180\<rparr>)"
proof -
  have x1: "xc (sphericalProject \<lparr>lat = 85.0511287798, lng = 180\<rparr>) = R * pi"
    by (simp add: sphericalProject_def)
  have x2: "xc (sphericalProject \<lparr>lat = - 85.0511287798, lng = - 180\<rparr>) = - (R * pi)"
    by (simp add: sphericalProject_def)
  show ?thesis
    unfolding northEast_yc southWest_yc x1 x2
    using R_pi_bounds R_ln_tan_bounds by simp
qed

end
